theory Spec2Isabelle
  imports Main "HOL-Library.Char_ord"
begin

section \<open>Byte strings and the fragments of Go's \<open>strings\<close> package the client relies on\<close>

text \<open>
  A Go \<open>string\<close> is a sequence of bytes; it is modelled as a \<^typ>\<open>string\<close> (a list of
  \<^typ>\<open>char\<close>, each one byte). Indices that Go reports as \<open>-1\<close> are \<open>None\<close>.
\<close>

definition strings_HasPrefix :: "string \<Rightarrow> string \<Rightarrow> bool" where
  "strings_HasPrefix s p = (take (length p) s = p)"

definition strings_HasSuffix :: "string \<Rightarrow> string \<Rightarrow> bool" where
  "strings_HasSuffix s p = (length p \<le> length s \<and> drop (length s - length p) s = p)"

definition strings_TrimPrefix :: "string \<Rightarrow> string \<Rightarrow> string" where
  "strings_TrimPrefix s p = (if strings_HasPrefix s p then drop (length p) s else s)"

definition strings_TrimSuffix :: "string \<Rightarrow> string \<Rightarrow> string" where
  "strings_TrimSuffix s p = (if strings_HasSuffix s p then take (length s - length p) s else s)"

fun strings_Index :: "string \<Rightarrow> string \<Rightarrow> nat option" where
  "strings_Index [] sep = (if sep = [] then Some 0 else None)"
| "strings_Index (c # s) sep =
     (if strings_HasPrefix (c # s) sep then Some 0 else map_option Suc (strings_Index s sep))"

fun strings_LastIndex :: "string \<Rightarrow> string \<Rightarrow> nat option" where
  "strings_LastIndex [] sep = (if sep = [] then Some 0 else None)"
| "strings_LastIndex (c # s) sep =
     (case strings_LastIndex s sep of
        Some i \<Rightarrow> Some (Suc i)
      | None \<Rightarrow> if strings_HasPrefix (c # s) sep then Some 0 else None)"

definition strings_Contains :: "string \<Rightarrow> string \<Rightarrow> bool" where
  "strings_Contains s substr = (strings_Index s substr \<noteq> None)"

definition strings_Cut :: "string \<Rightarrow> string \<Rightarrow> string \<times> string \<times> bool" where
  "strings_Cut s sep =
     (case strings_Index s sep of
        Some i \<Rightarrow> (take i s, drop (i + length sep) s, True)
      | None \<Rightarrow> (s, [], False))"

text \<open>\<open>strings.Count\<close> is only called with the one-byte separator \<open>"?"\<close>; the model
  counts the occurrences of a single byte.\<close>

definition strings_CountByte :: "string \<Rightarrow> char \<Rightarrow> nat" where
  "strings_CountByte s c = length (filter (\<lambda>b. b = c) s)"

text \<open>The byte \<open>c\<close> lies between \<open>lo\<close> and \<open>hi\<close>: Go's \<open>lo <= c && c <= hi\<close>.\<close>

definition inRange :: "char \<Rightarrow> char \<Rightarrow> char \<Rightarrow> bool" where
  "inRange lo hi c = (lo \<le> c \<and> c \<le> hi)"

text \<open>\<open>strings.ToLower\<close> is only applied to a scheme returned by \<open>getScheme\<close>, which
  holds ASCII bytes only; on those it maps \<open>A..Z\<close> to \<open>a..z\<close> and leaves the rest.\<close>

definition toLowerByte :: "char \<Rightarrow> char" where
  "toLowerByte c =
     (if inRange CHR ''A'' CHR ''Z'' c then char_of (of_char c + (32::nat)) else c)"

definition strings_ToLower :: "string \<Rightarrow> string" where
  "strings_ToLower s = map toLowerByte s"


section \<open>Errors\<close>

text \<open>
  Go errors are values. The constructors are the error values the modelled code can
  build: \<open>errors.New\<close> texts, the error types of \<open>net/url\<close>, and the results of the
  \<open>fmt.Errorf\<close> calls, kept by their format and operands.
\<close>

datatype error =
    errorString string              \<comment> \<open>\<open>errors.New(text)\<close>\<close>
  | EscapeError string              \<comment> \<open>\<open>url.EscapeError\<close>\<close>
  | InvalidHostError string         \<comment> \<open>\<open>url.InvalidHostError\<close>\<close>
  | invalidPortError string         \<comment> \<open>\<open>fmt.Errorf("invalid port %q after host", s)\<close>\<close>
  | invalidMethodError string       \<comment> \<open>\<open>fmt.Errorf("net/http: invalid method %q", s)\<close>\<close>
  | url_Error string string error   \<comment> \<open>\<open>&url.Error{Op, URL, Err}\<close>\<close>
  | Errorf_w error                  \<comment> \<open>\<open>fmt.Errorf("%w", err)\<close>\<close>
  | Errorf_w_s error string         \<comment> \<open>\<open>fmt.Errorf("%w %s", err, s)\<close>\<close>
  | runtimePanic string             \<comment> \<open>a run-time panic: the call does not return\<close>

text \<open>\<open>errors.Unwrap\<close>: the error an error wraps, if any.\<close>

fun errors_Unwrap :: "error \<Rightarrow> error option" where
  "errors_Unwrap (url_Error op u e) = Some e"
| "errors_Unwrap (Errorf_w e) = Some e"
| "errors_Unwrap (Errorf_w_s e s) = Some e"
| "errors_Unwrap e = None"



section \<open>Go's \<open>net/url\<close>: the URL structure, parsing, rendering, reference resolution\<close>

text \<open>
  The client calls \<open>url.Parse\<close>, \<open>(*URL).ResolveReference\<close> and \<open>(*URL).String\<close> of Go's
  standard library. The definitions of this section follow the library's source (as of
  Go 1.19 to 1.22: \<open>strings.Cut\<close>, the field \<open>OmitHost\<close>), function by function, on byte
  strings.
\<close>

record Userinfo =
  username :: string
  password :: string
  passwordSet :: bool

text \<open>\<open>url.URL\<close>. The field \<open>User\<close> is a pointer: \<open>None\<close> is \<open>nil\<close>.\<close>

record URL =
  Scheme :: string
  Opaque :: string
  User :: "Userinfo option"
  Host :: string
  Path :: string
  RawPath :: string
  OmitHost :: bool
  ForceQuery :: bool
  RawQuery :: string
  Fragment :: string
  RawFragment :: string

text \<open>The zero value \<open>URL{}\<close>.\<close>

definition zeroURL :: URL where
  "zeroURL = \<lparr>Scheme = [], Opaque = [], User = None, Host = [], Path = [], RawPath = [],
     OmitHost = False, ForceQuery = False, RawQuery = [], Fragment = [], RawFragment = []\<rparr>"

datatype encoding =
    encodePath | encodePathSegment | encodeHost | encodeZone
  | encodeUserPassword | encodeQueryComponent | encodeFragment

definition isAlnum :: "char \<Rightarrow> bool" where
  "isAlnum c = (inRange CHR ''a'' CHR ''z'' c \<or> inRange CHR ''A'' CHR ''Z'' c
     \<or> inRange CHR ''0'' CHR ''9'' c)"

definition ishex :: "char \<Rightarrow> bool" where
  "ishex c = (inRange CHR ''0'' CHR ''9'' c \<or> inRange CHR ''a'' CHR ''f'' c
     \<or> inRange CHR ''A'' CHR ''F'' c)"

definition unhex :: "char \<Rightarrow> nat" where
  "unhex c =
     (if inRange CHR ''0'' CHR ''9'' c then of_char c - of_char CHR ''0''
      else if inRange CHR ''a'' CHR ''f'' c then of_char c - of_char CHR ''a'' + 10
      else if inRange CHR ''A'' CHR ''F'' c then of_char c - of_char CHR ''A'' + 10
      else 0)"

text \<open>\<open>unhex(a)<<4 | unhex(b)\<close> as a byte.\<close>

definition unhexPair :: "char \<Rightarrow> char \<Rightarrow> char" where
  "unhexPair a b = char_of (unhex a * 16 + unhex b)"

definition upperhex :: string where
  "upperhex = ''0123456789ABCDEF''"

text \<open>\<open>shouldEscape\<close>: whether a byte must be percent-encoded in the given part of a URL.\<close>

definition shouldEscape :: "char \<Rightarrow> encoding \<Rightarrow> bool" where
  "shouldEscape c mode =
     (if isAlnum c then False
      else if (mode = encodeHost \<or> mode = encodeZone) \<and> c \<in> set ''!$&'()*+,;=:[]<>\"'' then False
      else if c \<in> set ''-_.~'' then False
      else if c \<in> set ''$&+,/:;=?@'' \<and> mode = encodePath then c = CHR ''?''
      else if c \<in> set ''$&+,/:;=?@'' \<and> mode = encodePathSegment
        then c = CHR ''/'' \<or> c = CHR '';'' \<or> c = CHR '','' \<or> c = CHR ''?''
      else if c \<in> set ''$&+,/:;=?@'' \<and> mode = encodeUserPassword
        then c = CHR ''@'' \<or> c = CHR ''/'' \<or> c = CHR ''?'' \<or> c = CHR '':''
      else if c \<in> set ''$&+,/:;=?@'' \<and> mode = encodeQueryComponent then True
      else if c \<in> set ''$&+,/:;=?@'' \<and> mode = encodeFragment then False
      else if mode = encodeFragment \<and> c \<in> set ''!()*'' then False
      else True)"

text \<open>
  \<open>unescape\<close>. Go validates in a first pass and decodes in a second; the first error met
  from the left is the one reported, which the single left-to-right pass below reproduces.
\<close>

fun unescape :: "string \<Rightarrow> encoding \<Rightarrow> error + string" where
  "unescape [] mode = Inr []"
| "unescape (c # s) mode =
     (if c = CHR ''%'' then
        (case s of
           a # b # rest \<Rightarrow>
             if \<not> ishex a \<or> \<not> ishex b then Inl (EscapeError (take 3 (c # s)))
             else if mode = encodeHost \<and> unhex a < 8 \<and> [a, b] \<noteq> ''25''
               then Inl (EscapeError [c, a, b])
             else if mode = encodeZone \<and> [a, b] \<noteq> ''25'' \<and> unhexPair a b \<noteq> CHR '' ''
                     \<and> shouldEscape (unhexPair a b) encodeHost
               then Inl (EscapeError [c, a, b])
             else (case unescape rest mode of
                     Inl e \<Rightarrow> Inl e
                   | Inr t \<Rightarrow> Inr (unhexPair a b # t))
         | _ \<Rightarrow> Inl (EscapeError (take 3 (c # s))))
      else if c = CHR ''+'' then
        (case unescape s mode of
           Inl e \<Rightarrow> Inl e
         | Inr t \<Rightarrow> Inr ((if mode = encodeQueryComponent then CHR '' '' else CHR ''+'') # t))
      else if (mode = encodeHost \<or> mode = encodeZone) \<and> c < CHR 0x80
              \<and> shouldEscape c encodeHost
        then Inl (InvalidHostError [c])
      else (case unescape s mode of
              Inl e \<Rightarrow> Inl e
            | Inr t \<Rightarrow> Inr (c # t)))"

text \<open>\<open>escape\<close>: percent-encode the bytes that \<open>shouldEscape\<close> selects.\<close>

definition escapeByte :: "encoding \<Rightarrow> char \<Rightarrow> string" where
  "escapeByte mode c =
     (if c = CHR '' '' \<and> mode = encodeQueryComponent then ''+''
      else if shouldEscape c mode
        then [CHR ''%'', upperhex ! (of_char c div 16), upperhex ! (of_char c mod 16)]
      else [c])"

definition escape :: "string \<Rightarrow> encoding \<Rightarrow> string" where
  "escape s mode = concat (map (escapeByte mode) s)"

definition stringContainsCTLByte :: "string \<Rightarrow> bool" where
  "stringContainsCTLByte s = (\<exists>b \<in> set s. b < CHR '' '' \<or> b = CHR 0x7F)"

text \<open>\<open>getScheme\<close>: the loop over the index \<open>i\<close>, from \<open>i\<close> on.\<close>

function getScheme_from :: "string \<Rightarrow> nat \<Rightarrow> error + (string \<times> string)" where
  "getScheme_from rawURL i =
     (if i < length rawURL then
        (let c = rawURL ! i in
         if inRange CHR ''a'' CHR ''z'' c \<or> inRange CHR ''A'' CHR ''Z'' c
           then getScheme_from rawURL (Suc i)
         else if inRange CHR ''0'' CHR ''9'' c \<or> c = CHR ''+'' \<or> c = CHR ''-'' \<or> c = CHR ''.''
           then (if i = 0 then Inr ([], rawURL) else getScheme_from rawURL (Suc i))
         else if c = CHR '':''
           then (if i = 0 then Inl (errorString ''missing protocol scheme'')
                 else Inr (take i rawURL, drop (Suc i) rawURL))
         else Inr ([], rawURL))
      else Inr ([], rawURL))"
  by pat_completeness auto
termination
  by (relation "measure (\<lambda>(rawURL, i). length rawURL - i)") auto

definition getScheme :: "string \<Rightarrow> error + (string \<times> string)" where
  "getScheme rawURL = getScheme_from rawURL 0"

definition validOptionalPort :: "string \<Rightarrow> bool" where
  "validOptionalPort port =
     (case port of
        [] \<Rightarrow> True
      | c # ds \<Rightarrow> c = CHR '':'' \<and> list_all (\<lambda>b. inRange CHR ''0'' CHR ''9'' b) ds)"

definition validUserinfo :: "string \<Rightarrow> bool" where
  "validUserinfo s = list_all (\<lambda>r. isAlnum r \<or> r \<in> set ''-._:~!$&'()*+,;=%@'') s"

text \<open>\<open>parseHost\<close>: a bracketed IP literal (with an optional zone after \<open>%25\<close>) or a
  name, each with an optional port.\<close>

definition parseHost :: "string \<Rightarrow> error + string" where
  "parseHost host =
     (if strings_HasPrefix host ''['' then
        (case strings_LastIndex host '']'' of
           None \<Rightarrow> Inl (errorString ''missing ']' in host'')
         | Some i \<Rightarrow>
             let colonPort = drop (Suc i) host in
             if \<not> validOptionalPort colonPort then Inl (invalidPortError colonPort)
             else (case strings_Index (take i host) ''%25'' of
                     Some zone \<Rightarrow>
                       (case unescape (take zone host) encodeHost of
                          Inl e \<Rightarrow> Inl e
                        | Inr host1 \<Rightarrow>
                            (case unescape (drop zone (take i host)) encodeZone of
                               Inl e \<Rightarrow> Inl e
                             | Inr host2 \<Rightarrow>
                                 (case unescape (drop i host) encodeHost of
                                    Inl e \<Rightarrow> Inl e
                                  | Inr host3 \<Rightarrow> Inr (host1 @ host2 @ host3))))
                   | None \<Rightarrow> unescape host encodeHost))
      else
        (case strings_LastIndex host '':'' of
           Some i \<Rightarrow>
             let colonPort = drop i host in
             if \<not> validOptionalPort colonPort then Inl (invalidPortError colonPort)
             else unescape host encodeHost
         | None \<Rightarrow> unescape host encodeHost))"

definition parseAuthority :: "string \<Rightarrow> error + (Userinfo option \<times> string)" where
  "parseAuthority authority =
     (case strings_LastIndex authority ''@'' of
        None \<Rightarrow>
          (case parseHost authority of
             Inl e \<Rightarrow> Inl e
           | Inr host \<Rightarrow> Inr (None, host))
      | Some i \<Rightarrow>
          (case parseHost (drop (Suc i) authority) of
             Inl e \<Rightarrow> Inl e
           | Inr host \<Rightarrow>
               let userinfo = take i authority in
               if \<not> validUserinfo userinfo then Inl (errorString ''net/url: invalid userinfo'')
               else if \<not> strings_Contains userinfo '':'' then
                 (case unescape userinfo encodeUserPassword of
                    Inl e \<Rightarrow> Inl e
                  | Inr name \<Rightarrow>
                      Inr (Some \<lparr>username = name, password = [], passwordSet = False\<rparr>, host))
               else
                 (let (name0, pass0, found) = strings_Cut userinfo '':'' in
                  case unescape name0 encodeUserPassword of
                    Inl e \<Rightarrow> Inl e
                  | Inr name \<Rightarrow>
                      (case unescape pass0 encodeUserPassword of
                         Inl e \<Rightarrow> Inl e
                       | Inr pass \<Rightarrow>
                           Inr (Some \<lparr>username = name, password = pass, passwordSet = True\<rparr>,
                                host)))))"

text \<open>\<open>(*URL).setPath\<close> and \<open>(*URL).setFragment\<close>: store the decoded text, and keep the
  encoded text as a hint only when it is not the default encoding.\<close>

definition URL_setPath :: "URL \<Rightarrow> string \<Rightarrow> error + URL" where
  "URL_setPath u p =
     (case unescape p encodePath of
        Inl e \<Rightarrow> Inl e
      | Inr path \<Rightarrow>
          Inr (u\<lparr>Path := path, RawPath := (if p = escape path encodePath then [] else p)\<rparr>))"

definition URL_setFragment :: "URL \<Rightarrow> string \<Rightarrow> error + URL" where
  "URL_setFragment u f =
     (case unescape f encodeFragment of
        Inl e \<Rightarrow> Inl e
      | Inr frag \<Rightarrow>
          Inr (u\<lparr>Fragment := frag,
                 RawFragment := (if f = escape frag encodeFragment then [] else f)\<rparr>))"

text \<open>\<open>parse\<close>: the URL without its fragment.\<close>

definition url_parse :: "string \<Rightarrow> bool \<Rightarrow> error + URL" where
  "url_parse rawURL viaRequest =
     (if stringContainsCTLByte rawURL
        then Inl (errorString ''net/url: invalid control character in URL'')
      else if rawURL = [] \<and> viaRequest then Inl (errorString ''empty url'')
      else if rawURL = ''*'' then Inr (zeroURL\<lparr>Path := ''*''\<rparr>)
      else
        (case getScheme rawURL of
           Inl e \<Rightarrow> Inl e
         | Inr (scheme0, rest0) \<Rightarrow>
             let scheme = strings_ToLower scheme0;
                 (force, rest, query) =
                   (if strings_HasSuffix rest0 ''?'' \<and> strings_CountByte rest0 CHR ''?'' = 1
                      then (True, take (length rest0 - 1) rest0, [])
                    else (let (before, after, found) = strings_Cut rest0 ''?''
                          in (False, before, after)));
                 url = zeroURL\<lparr>Scheme := scheme, ForceQuery := force, RawQuery := query\<rparr>
             in
             if \<not> strings_HasPrefix rest ''/'' \<and> scheme \<noteq> [] then Inr (url\<lparr>Opaque := rest\<rparr>)
             else if \<not> strings_HasPrefix rest ''/'' \<and> viaRequest
               then Inl (errorString ''invalid URI for request'')
             else if \<not> strings_HasPrefix rest ''/''
                     \<and> strings_Contains (fst (strings_Cut rest ''/'')) '':''
               then Inl (errorString ''first path segment in URL cannot contain colon'')
             else if (scheme \<noteq> [] \<or> \<not> viaRequest \<and> \<not> strings_HasPrefix rest ''///'')
                     \<and> strings_HasPrefix rest ''//''
               then
                 (let authority0 = drop 2 rest;
                      (authority, rest') =
                        (case strings_Index authority0 ''/'' of
                           Some i \<Rightarrow> (take i authority0, drop i authority0)
                         | None \<Rightarrow> (authority0, []))
                  in case parseAuthority authority of
                       Inl e \<Rightarrow> Inl e
                     | Inr (user, host) \<Rightarrow> URL_setPath (url\<lparr>User := user, Host := host\<rparr>) rest')
             else if scheme \<noteq> [] \<and> strings_HasPrefix rest ''/''
               then URL_setPath (url\<lparr>OmitHost := True\<rparr>) rest
             else URL_setPath url rest))"

text \<open>\<open>url.Parse\<close>: split the fragment off at the first \<open>#\<close>, parse the rest, then set the
  fragment.\<close>

definition url_Parse :: "string \<Rightarrow> error + URL" where
  "url_Parse rawURL =
     (let (u, frag, found) = strings_Cut rawURL ''#'' in
      case url_parse u False of
        Inl err \<Rightarrow> Inl (url_Error ''parse'' u err)
      | Inr url \<Rightarrow>
          if frag = [] then Inr url
          else (case URL_setFragment url frag of
                  Inl err \<Rightarrow> Inl (url_Error ''parse'' rawURL err)
                | Inr url' \<Rightarrow> Inr url'))"

text \<open>\<open>validEncoded\<close>: the encoded hint holds nothing that would have to be escaped.\<close>

definition validEncoded :: "string \<Rightarrow> encoding \<Rightarrow> bool" where
  "validEncoded s mode =
     list_all (\<lambda>c. c \<in> set ''!$&'()*+,;=:@'' \<or> c \<in> set ''[]'' \<or> c = CHR ''%''
                   \<or> \<not> shouldEscape c mode) s"

definition URL_EscapedPath :: "URL \<Rightarrow> string" where
  "URL_EscapedPath u =
     (if RawPath u \<noteq> [] \<and> validEncoded (RawPath u) encodePath
         \<and> unescape (RawPath u) encodePath = Inr (Path u)
        then RawPath u
      else if Path u = ''*'' then ''*''
      else escape (Path u) encodePath)"

definition URL_EscapedFragment :: "URL \<Rightarrow> string" where
  "URL_EscapedFragment u =
     (if RawFragment u \<noteq> [] \<and> validEncoded (RawFragment u) encodeFragment
         \<and> unescape (RawFragment u) encodeFragment = Inr (Fragment u)
        then RawFragment u
      else escape (Fragment u) encodeFragment)"

definition Userinfo_String :: "Userinfo \<Rightarrow> string" where
  "Userinfo_String ui =
     escape (username ui) encodeUserPassword
       @ (if passwordSet ui then '':'' @ escape (password ui) encodeUserPassword else [])"

text \<open>\<open>(*URL).String\<close>: the buffer is built in the order of the source's writes.\<close>

definition URL_String :: "URL \<Rightarrow> string" where
  "URL_String u =
     (let buf0 = (if Scheme u \<noteq> [] then Scheme u @ '':'' else []);
          buf1 =
            (if Opaque u \<noteq> [] then buf0 @ Opaque u
             else
               (let buf2 =
                      (if Scheme u \<noteq> [] \<or> Host u \<noteq> [] \<or> User u \<noteq> None then
                         (if OmitHost u \<and> Host u = [] \<and> User u = None then buf0
                          else buf0
                            @ (if Host u \<noteq> [] \<or> Path u \<noteq> [] \<or> User u \<noteq> None then ''//'' else [])
                            @ (case User u of None \<Rightarrow> [] | Some ui \<Rightarrow> Userinfo_String ui @ ''@'')
                            @ (if Host u \<noteq> [] then escape (Host u) encodeHost else []))
                       else buf0);
                    path = URL_EscapedPath u;
                    buf3 = (if path \<noteq> [] \<and> hd path \<noteq> CHR ''/'' \<and> Host u \<noteq> []
                            then buf2 @ ''/'' else buf2);
                    buf4 = (if buf3 = [] \<and> strings_Contains (fst (strings_Cut path ''/'')) '':''
                            then buf3 @ ''./'' else buf3)
                in buf4 @ path));
          buf5 = (if ForceQuery u \<or> RawQuery u \<noteq> [] then buf1 @ ''?'' @ RawQuery u else buf1)
      in if Fragment u \<noteq> [] then buf5 @ ''#'' @ URL_EscapedFragment u else buf5)"

text \<open>
  \<open>resolvePath\<close> (RFC 3986, section 5.2.4): the loop takes one element of the path at a
  time with \<open>strings.Cut\<close>; \<open>dst\<close> is the text built so far, \<open>first\<close> says that nothing
  but the leading separator has been written. The loop returns the last element and \<open>dst\<close>.
\<close>

lemma strings_Index_bound:
  "strings_Index s sep = Some i \<Longrightarrow> i + length sep \<le> length s"
proof (induction s arbitrary: i)
  case Nil
  then show ?case by (simp split: if_splits)
next
  case (Cons c s)
  show ?case
  proof (cases "strings_HasPrefix (c # s) sep")
    case True
    then have "length (take (length sep) (c # s)) = length sep"
      unfolding strings_HasPrefix_def by simp
    then have "length sep \<le> length (c # s)"
      by simp
    with True Cons.prems show ?thesis by simp
  next
    case False
    with Cons.prems obtain j where "strings_Index s sep = Some j" and "i = Suc j"
      by auto
    with Cons.IH show ?thesis by simp
  qed
qed

lemma strings_Cut_shorter:
  assumes "strings_Cut s sep = (before, after, True)" and "sep \<noteq> []"
  shows "length after < length s"
proof -
  from assms(1) obtain i where i: "strings_Index s sep = Some i"
    and after: "after = drop (i + length sep) s"
    unfolding strings_Cut_def by (auto split: option.splits)
  from i have "i + length sep \<le> length s" by (rule strings_Index_bound)
  moreover from assms(2) have "0 < length sep" by simp
  moreover from after have "length after = length s - (i + length sep)" by simp
  ultimately show ?thesis by arith
qed

function resolvePath_loop :: "string \<Rightarrow> string \<Rightarrow> bool \<Rightarrow> string \<times> string" where
  "resolvePath_loop remaining dst first =
     (case strings_Cut remaining ''/'' of
        (elem, remaining', found) \<Rightarrow>
          (let (dst', first') =
                 (if elem = ''.'' then (dst, False)
                  else if elem = ''..'' then
                    (let str = drop 1 dst in
                     case strings_LastIndex str ''/'' of
                       None \<Rightarrow> (''/'', True)
                     | Some index \<Rightarrow> (''/'' @ take index str, first))
                  else ((if \<not> first then dst @ ''/'' else dst) @ elem, False))
           in if found then resolvePath_loop remaining' dst' first' else (elem, dst')))"
  by pat_completeness auto
termination
  by (relation "measure (\<lambda>(remaining, dst, first). length remaining)")
     (auto dest: strings_Cut_shorter [OF sym])

definition resolvePath :: "string \<Rightarrow> string \<Rightarrow> string" where
  "resolvePath base ref =
     (let full =
            (if ref = [] then base
             else if hd ref \<noteq> CHR ''/'' then
               (case strings_LastIndex base ''/'' of
                  Some i \<Rightarrow> take (Suc i) base @ ref
                | None \<Rightarrow> ref)
             else ref)
      in if full = [] then []
         else (let (elem, dst) = resolvePath_loop full ''/'' True;
                   r = (if elem = ''.'' \<or> elem = ''..'' then dst @ ''/'' else dst)
               in if length r > 1 \<and> r ! 1 = CHR ''/'' then drop 1 r else r))"

text \<open>\<open>(*URL).ResolveReference\<close>. The source ignores the error of \<open>setPath\<close>; on an error
  \<open>setPath\<close> has changed nothing, so the copy of \<open>ref\<close> is returned as it is.\<close>

definition setPath_ignoring :: "URL \<Rightarrow> string \<Rightarrow> URL" where
  "setPath_ignoring u p = (case URL_setPath u p of Inl e \<Rightarrow> u | Inr u' \<Rightarrow> u')"

definition URL_ResolveReference :: "URL \<Rightarrow> URL \<Rightarrow> URL" where
  "URL_ResolveReference u ref =
     (let url = (if Scheme ref = [] then ref\<lparr>Scheme := Scheme u\<rparr> else ref) in
      if Scheme ref \<noteq> [] \<or> Host ref \<noteq> [] \<or> User ref \<noteq> None
        then setPath_ignoring url (resolvePath (URL_EscapedPath ref) [])
      else if Opaque ref \<noteq> [] then url\<lparr>User := None, Host := [], Path := []\<rparr>
      else
        (let url1 =
               (if Path ref = [] \<and> \<not> ForceQuery ref \<and> RawQuery ref = [] then
                  (let url' = url\<lparr>RawQuery := RawQuery u\<rparr> in
                   if Fragment ref = []
                     then url'\<lparr>Fragment := Fragment u, RawFragment := RawFragment u\<rparr>
                   else url')
                else url)
         in if Path ref = [] \<and> Opaque u \<noteq> []
              then url1\<lparr>Opaque := Opaque u, User := None, Host := [], Path := []\<rparr>
            else setPath_ignoring (url1\<lparr>Host := Host u, User := User u\<rparr>)
                   (resolvePath (URL_EscapedPath u) (URL_EscapedPath ref))))"


section \<open>Go's \<open>net/http\<close>: building a request\<close>

text \<open>
  A header set maps a canonical key to its values. \<open>Header.Set\<close> canonicalises the key
  (\<open>textproto.CanonicalMIMEHeaderKey\<close>) and replaces its values by the single given one;
  the two keys the client sets, \<open>Authorization\<close> and \<open>User-Agent\<close>, are in canonical form
  already, so the model stores under the key as given.
\<close>

type_synonym Header = "string \<rightharpoonup> string list"

definition Header_Set :: "Header \<Rightarrow> string \<Rightarrow> string \<Rightarrow> Header" where
  "Header_Set h key v = h(key \<mapsto> [v])"

text \<open>The fields of \<open>http.Request\<close> that \<open>http.NewRequest\<close> fills from its arguments. The body
  (an \<open>io.Reader\<close>, possibly \<open>nil\<close>) is the bytes it would deliver.\<close>

record Request =
  Method :: string
  URL :: URL
  Header :: Header
  Body :: "string option"
  Request_Host :: string

definition isTokenByte :: "char \<Rightarrow> bool" where
  "isTokenByte c = (isAlnum c \<or> c \<in> set ''!#$%&'*+-.^_`|~'')"

definition validMethod :: "string \<Rightarrow> bool" where
  "validMethod method = (method \<noteq> [] \<and> list_all isTokenByte method)"

definition hasPort :: "string \<Rightarrow> bool" where
  "hasPort s =
     (case strings_LastIndex s '':'' of
        None \<Rightarrow> False
      | Some i \<Rightarrow> (case strings_LastIndex s '']'' of None \<Rightarrow> True | Some j \<Rightarrow> j < i))"

definition removeEmptyPort :: "string \<Rightarrow> string" where
  "removeEmptyPort host = (if hasPort host then strings_TrimSuffix host '':'' else host)"

text \<open>\<open>http.NewRequest\<close> (\<open>NewRequestWithContext\<close> with the background context, which is
  never \<open>nil\<close>).\<close>

definition http_NewRequest :: "string \<Rightarrow> string \<Rightarrow> string option \<Rightarrow> error + Request" where
  "http_NewRequest method0 url body =
     (let method = (if method0 = [] then ''GET'' else method0) in
      if \<not> validMethod method then Inl (invalidMethodError method)
      else (case url_Parse url of
              Inl err \<Rightarrow> Inl err
            | Inr u0 \<Rightarrow>
                let u = u0\<lparr>Host := removeEmptyPort (Host u0)\<rparr> in
                Inr \<lparr>Method = method, URL = u, Header = Map.empty, Body = body,
                     Request_Host = Host u\<rparr>))"


section \<open>The client: \<open>client/client.go\<close>\<close>

definition errUnsupportedProtocolScheme :: error where
  "errUnsupportedProtocolScheme = errorString ''unsupported protocol scheme''"

text \<open>\<open>normalizeURL\<close> parses \<open>rawURL\<close>, and ensures the path component is terminated with a
  separator.\<close>

definition normalizeURL :: "string \<Rightarrow> error + URL" where
  "normalizeURL rawURL =
     (case url_Parse rawURL of
        Inl err \<Rightarrow> Inl err
      | Inr u \<Rightarrow>
          if Scheme u \<noteq> ''http'' \<and> Scheme u \<noteq> ''https''
            then Inl (Errorf_w_s errUnsupportedProtocolScheme (Scheme u))
          else if \<not> strings_HasSuffix (Path u) ''/'' then Inr (u\<lparr>Path := Path u @ ''/''\<rparr>)
          else Inr u)"

text \<open>A pointer to an \<open>http.Client\<close>: \<open>nil\<close>, the package's \<open>http.DefaultClient\<close>, or a client
  object of the caller's, named by its address.\<close>

datatype http_Client_ptr = nil | DefaultClient | ClientAt nat

record clientOptions =
  baseURL :: string
  bearerToken :: string
  userAgent :: string
  httpClient :: http_Client_ptr

text \<open>An \<open>Option\<close> is a function that mutates the options through a pointer and returns an
  error or \<open>nil\<close>: a function from the options to the returned error (\<open>None\<close> is \<open>nil\<close>) and
  the options as it leaves them. The type holds the options that return; a \<open>nil\<close> function
  value, whose call panics, is not among them.\<close>

type_synonym Option = "clientOptions \<Rightarrow> error option \<times> clientOptions"

definition OptBaseURL :: "string \<Rightarrow> Option" where
  "OptBaseURL url = (\<lambda>co. (None, co\<lparr>baseURL := url\<rparr>))"

definition OptBearerToken :: "string \<Rightarrow> Option" where
  "OptBearerToken token = (\<lambda>co. (None, co\<lparr>bearerToken := token\<rparr>))"

definition OptUserAgent :: "string \<Rightarrow> Option" where
  "OptUserAgent agent = (\<lambda>co. (None, co\<lparr>userAgent := agent\<rparr>))"

definition OptHTTPClient :: "http_Client_ptr \<Rightarrow> Option" where
  "OptHTTPClient c = (\<lambda>co. (None, co\<lparr>httpClient := c\<rparr>))"

text \<open>\<open>Client\<close>. \<open>BaseURL\<close> is a pointer to a URL: \<open>None\<close> is \<open>nil\<close>.\<close>

record Client =
  BaseURL :: "URL option"
  AuthToken :: string
  UserAgent :: string
  HTTPClient :: http_Client_ptr

definition defaultBaseURL :: string where
  "defaultBaseURL = ''https://build.sylabs.io/''"

text \<open>The loop of \<open>NewClient\<close> that applies the options: it returns at the first option that
  reports an error, with that error wrapped.\<close>

fun applyOptions :: "Option list \<Rightarrow> clientOptions \<Rightarrow> error + clientOptions" where
  "applyOptions [] co = Inr co"
| "applyOptions (opt # opts) co =
     (case opt co of
        (Some err, co') \<Rightarrow> Inl (Errorf_w err)
      | (None, co') \<Rightarrow> applyOptions opts co')"

text \<open>The number of options that loop calls before it ends.\<close>

fun optionsCalled :: "Option list \<Rightarrow> clientOptions \<Rightarrow> nat" where
  "optionsCalled [] co = 0"
| "optionsCalled (opt # opts) co =
     (case opt co of
        (Some err, co') \<Rightarrow> 1
      | (None, co') \<Rightarrow> Suc (optionsCalled opts co'))"

definition initialOptions :: clientOptions where
  "initialOptions =
     \<lparr>baseURL = defaultBaseURL, bearerToken = [], userAgent = [], httpClient = DefaultClient\<rparr>"

definition NewClient :: "Option list \<Rightarrow> error + Client" where
  "NewClient opts =
     (case applyOptions opts initialOptions of
        Inl err \<Rightarrow> Inl err
      | Inr co \<Rightarrow>
          let c = \<lparr>BaseURL = None, AuthToken = bearerToken co, UserAgent = userAgent co,
                   HTTPClient = httpClient co\<rparr>
          in (case normalizeURL (baseURL co) of
                Inl err \<Rightarrow> Inl (Errorf_w err)
              | Inr u \<Rightarrow> Inr (c\<lparr>BaseURL := Some u\<rparr>)))"

definition setRequestHeaders :: "Client \<Rightarrow> Header \<Rightarrow> Header" where
  "setRequestHeaders c h =
     (let h1 = (if AuthToken c \<noteq> [] then Header_Set h ''Authorization'' (''BEARER '' @ AuthToken c)
                else h)
      in if UserAgent c \<noteq> [] then Header_Set h1 ''User-Agent'' (UserAgent c) else h1)"

text \<open>\<open>newRequest\<close>. Reading through a \<open>nil\<close> \<open>BaseURL\<close> panics.\<close>

definition newRequest :: "Client \<Rightarrow> string \<Rightarrow> string \<Rightarrow> string option \<Rightarrow> error + Request" where
  "newRequest c method path body =
     (case BaseURL c of
        None \<Rightarrow> Inl (runtimePanic ''invalid memory address or nil pointer dereference'')
      | Some base \<Rightarrow>
          let u = URL_ResolveReference base (zeroURL\<lparr>Path := strings_TrimPrefix path ''/''\<rparr>) in
          (case http_NewRequest method (URL_String u) body of
             Inl err \<Rightarrow> Inl err
           | Inr r \<Rightarrow> Inr (r\<lparr>Header := setRequestHeaders c (Header r)\<rparr>)))"


section \<open>Sequences of the exposed options\<close>

text \<open>
  The four option constructors the package exposes, as data: an \<open>optionSpec\<close> names a
  constructor and its argument, \<open>exposedOption\<close> is the option it builds. They serve to
  state properties of the option sequences a caller can write.
\<close>

datatype optionSpec =
    BaseURLSpec string
  | BearerTokenSpec string
  | UserAgentSpec string
  | HTTPClientSpec http_Client_ptr

fun exposedOption :: "optionSpec \<Rightarrow> Option" where
  "exposedOption (BaseURLSpec url) = OptBaseURL url"
| "exposedOption (BearerTokenSpec token) = OptBearerToken token"
| "exposedOption (UserAgentSpec agent) = OptUserAgent agent"
| "exposedOption (HTTPClientSpec c) = OptHTTPClient c"

text \<open>The base URL strings, and the transport handles, given in a sequence, in order.\<close>

fun baseURLsGiven :: "optionSpec list \<Rightarrow> string list" where
  "baseURLsGiven [] = []"
| "baseURLsGiven (BaseURLSpec url # specs) = url # baseURLsGiven specs"
| "baseURLsGiven (spec # specs) = baseURLsGiven specs"

fun transportsGiven :: "optionSpec list \<Rightarrow> http_Client_ptr list" where
  "transportsGiven [] = []"
| "transportsGiven (HTTPClientSpec c # specs) = c # transportsGiven specs"
| "transportsGiven (spec # specs) = transportsGiven specs"

text \<open>The last value given, or the default when none was.\<close>

definition lastOr :: "'a \<Rightarrow> 'a list \<Rightarrow> 'a" where
  "lastOr d xs = (if xs = [] then d else last xs)"

text \<open>The rendered URL of a built request, or the error of the call.\<close>

definition requestURL :: "error + Request \<Rightarrow> error + string" where
  "requestURL res = (case res of Inl err \<Rightarrow> Inl err | Inr r \<Rightarrow> Inr (URL_String (URL r)))"


section \<open>URLs of the plain shape\<close>

text \<open>
  The unreserved bytes of RFC 3986 (letters, digits, \<open>-\<close>, \<open>_\<close>, \<open>.\<close>, \<open>~\<close>) need no
  escaping in any part of a URL. A plain host consists of them; a plain path consists of them
  and of separators, and is empty or begins with a separator.
\<close>

definition unreservedByte :: "char \<Rightarrow> bool" where
  "unreservedByte c = (isAlnum c \<or> c \<in> set ''-_.~'')"




section \<open>Auxiliary facts\<close>

lemma strings_HasSuffix_slash_iff:
  "strings_HasSuffix s ''/'' \<longleftrightarrow> (\<exists>p. s = p @ ''/'')"
proof
  assume "strings_HasSuffix s ''/''"
  then have "1 \<le> length s" and "drop (length s - 1) s = ''/''"
    by (simp_all add: strings_HasSuffix_def)
  then have "s = take (length s - 1) s @ ''/''"
    by (metis append_take_drop_id)
  then show "\<exists>p. s = p @ ''/''" ..
next
  assume "\<exists>p. s = p @ ''/''"
  then show "strings_HasSuffix s ''/''"
    by (auto simp: strings_HasSuffix_def)
qed

lemma normalizeURL_result:
  assumes "normalizeURL rawURL = Inr u"
  shows "(Scheme u = ''http'' \<or> Scheme u = ''https'') \<and> strings_HasSuffix (Path u) ''/''"
proof -
  from assms obtain u0 where p: "url_Parse rawURL = Inr u0"
    by (auto simp: normalizeURL_def split: sum.splits)
  show ?thesis
  proof (cases "strings_HasSuffix (Path u0) ''/''")
    case True
    with assms p show ?thesis
      by (auto simp: normalizeURL_def split: if_splits)
  next
    case False
    with assms p have "u = u0\<lparr>Path := Path u0 @ ''/''\<rparr>"
      and "Scheme u0 = ''http'' \<or> Scheme u0 = ''https''"
      by (auto simp: normalizeURL_def split: if_splits)
    then show ?thesis
      by (auto simp: strings_HasSuffix_def)
  qed
qed

lemma NewClient_Inr:
  assumes "NewClient opts = Inr c"
  shows "\<exists>co u. applyOptions opts initialOptions = Inr co
    \<and> normalizeURL (baseURL co) = Inr u
    \<and> c = \<lparr>BaseURL = Some u, AuthToken = bearerToken co, UserAgent = userAgent co,
              HTTPClient = httpClient co\<rparr>"
  using assms by (auto simp: NewClient_def Let_def split: sum.splits)

lemma normalizeURL_unsupported:
  assumes "url_Parse rawURL = Inr u" and "Scheme u \<noteq> ''http''" and "Scheme u \<noteq> ''https''"
  shows "normalizeURL rawURL = Inl (Errorf_w_s errUnsupportedProtocolScheme (Scheme u))"
  using assms by (simp add: normalizeURL_def)

lemma applyOptions_append:
  "applyOptions (pre @ rest) co =
     (case applyOptions pre co of Inl e \<Rightarrow> Inl e | Inr co' \<Rightarrow> applyOptions rest co')"
  by (induction pre arbitrary: co) (auto split: prod.splits option.splits)

lemma optionsCalled_append:
  "applyOptions pre co = Inr co' \<Longrightarrow>
     optionsCalled (pre @ rest) co = length pre + optionsCalled rest co'"
  by (induction pre arbitrary: co) (auto split: prod.splits option.splits)

lemma applyOptions_exposed:
  "\<exists>co'. applyOptions (map exposedOption specs) co = Inr co'
     \<and> baseURL co' = lastOr (baseURL co) (baseURLsGiven specs)
     \<and> httpClient co' = lastOr (httpClient co) (transportsGiven specs)"
proof (induction specs arbitrary: co)
  case Nil
  show ?case by (simp add: lastOr_def)
next
  case (Cons spec specs)
  show ?case
  proof (cases spec)
    case (BaseURLSpec url)
    with Cons.IH [of "co\<lparr>baseURL := url\<rparr>"] show ?thesis
      by (auto simp: OptBaseURL_def lastOr_def)
  next
    case (BearerTokenSpec token)
    with Cons.IH [of "co\<lparr>bearerToken := token\<rparr>"] show ?thesis
      by (auto simp: OptBearerToken_def lastOr_def)
  next
    case (UserAgentSpec agent)
    with Cons.IH [of "co\<lparr>userAgent := agent\<rparr>"] show ?thesis
      by (auto simp: OptUserAgent_def lastOr_def)
  next
    case (HTTPClientSpec h)
    with Cons.IH [of "co\<lparr>httpClient := h\<rparr>"] show ?thesis
      by (auto simp: OptHTTPClient_def lastOr_def)
  qed
qed

lemma newRequest_URL:
  assumes "BaseURL c = Some base"
    and "method = [] \<or> validMethod method"
    and "URL_String (URL_ResolveReference base (zeroURL\<lparr>Path := strings_TrimPrefix path ''/''\<rparr>)) = s"
    and "url_Parse s = Inr u"
  shows "\<exists>r. newRequest c method path body = Inr r
    \<and> URL r = u\<lparr>Host := removeEmptyPort (Host u)\<rparr>"
proof -
  have "validMethod ''GET''"
    by code_simp
  with assms(2) have "validMethod (if method = [] then ''GET'' else method)"
    by auto
  with assms(1,3,4) show ?thesis
    by (simp add: newRequest_def http_NewRequest_def Let_def)
qed

lemma newRequest_api_builds:
  assumes "method = [] \<or> validMethod method"
  shows "\<exists>c r. NewClient [OptBaseURL ''https://example.com/api''] = Inr c
            \<and> newRequest c method ''v1/builds'' body = Inr r
            \<and> URL_String (URL r) = ''https://example.com/api/v1/builds''"
proof -
  let ?base = "zeroURL\<lparr>Scheme := ''https'', Host := ''example.com'', Path := ''/api/''\<rparr>"
  let ?c = "\<lparr>BaseURL = Some ?base, AuthToken = [], UserAgent = [], HTTPClient = DefaultClient\<rparr>"
  let ?u = "zeroURL\<lparr>Scheme := ''https'', Host := ''example.com'', Path := ''/api/v1/builds''\<rparr>"
  have new: "NewClient [OptBaseURL ''https://example.com/api''] = Inr ?c"
    by code_simp
  have base: "BaseURL ?c = Some ?base"
    by simp
  have resolve: "URL_String (URL_ResolveReference ?base
      (zeroURL\<lparr>Path := strings_TrimPrefix ''v1/builds'' ''/''\<rparr>)) = ''https://example.com/api/v1/builds''"
    by code_simp
  have parse: "url_Parse ''https://example.com/api/v1/builds'' = Inr ?u"
    by code_simp
  have string: "URL_String (?u\<lparr>Host := removeEmptyPort (Host ?u)\<rparr>) = ''https://example.com/api/v1/builds''"
    by code_simp
  from newRequest_URL [OF base assms resolve parse, of body]
  obtain r where r: "newRequest ?c method ''v1/builds'' body = Inr r"
    and "URL r = ?u\<lparr>Host := removeEmptyPort (Host ?u)\<rparr>"
    by blast
  with string have "URL_String (URL r) = ''https://example.com/api/v1/builds''"
    by (simp only:)
  with new r show ?thesis
    by blast
qed

lemma newRequest_default_builds:
  assumes "method = [] \<or> validMethod method"
  shows "\<exists>c r. NewClient [] = Inr c
            \<and> newRequest c method ''v1/builds'' body = Inr r
            \<and> URL_String (URL r) = ''https://build.sylabs.io/v1/builds''"
proof -
  let ?base = "zeroURL\<lparr>Scheme := ''https'', Host := ''build.sylabs.io'', Path := ''/''\<rparr>"
  let ?c = "\<lparr>BaseURL = Some ?base, AuthToken = [], UserAgent = [], HTTPClient = DefaultClient\<rparr>"
  let ?u = "zeroURL\<lparr>Scheme := ''https'', Host := ''build.sylabs.io'', Path := ''/v1/builds''\<rparr>"
  have new: "NewClient [] = Inr ?c"
    by code_simp
  have base: "BaseURL ?c = Some ?base"
    by simp
  have resolve: "URL_String (URL_ResolveReference ?base
      (zeroURL\<lparr>Path := strings_TrimPrefix ''v1/builds'' ''/''\<rparr>)) = ''https://build.sylabs.io/v1/builds''"
    by code_simp
  have parse: "url_Parse ''https://build.sylabs.io/v1/builds'' = Inr ?u"
    by code_simp
  have string: "URL_String (?u\<lparr>Host := removeEmptyPort (Host ?u)\<rparr>) = ''https://build.sylabs.io/v1/builds''"
    by code_simp
  from newRequest_URL [OF base assms resolve parse, of body]
  obtain r where r: "newRequest ?c method ''v1/builds'' body = Inr r"
    and "URL r = ?u\<lparr>Host := removeEmptyPort (Host ?u)\<rparr>"
    by blast
  with string have "URL_String (URL r) = ''https://build.sylabs.io/v1/builds''"
    by (simp only:)
  with new r show ?thesis
    by blast
qed


subsection \<open>Parsing and rendering URLs of the plain shape\<close>




lemma unreserved_ascii:
  "unreservedByte c \<Longrightarrow> c < CHR 0x80"
  by (auto simp: unreservedByte_def isAlnum_def inRange_def less_eq_char_def less_char_def)

lemma strings_Index_absent: "c \<notin> set s \<Longrightarrow> strings_Index s [c] = None"
  by (induction s) (auto simp: strings_HasPrefix_def)



lemma strings_Contains_absent: "c \<notin> set s \<Longrightarrow> \<not> strings_Contains s [c]"
  by (simp add: strings_Contains_def strings_Index_absent)

































section \<open>The claims\<close>

text \<open>Claim C1. A client built with the base URL \<open>https://example.com/api\<close> (no trailing
  separator) sends the request for the path \<open>v1/builds\<close> to
  \<open>https://example.com/api/v1/builds\<close>, not to \<open>https://example.com/v1/builds\<close>; a client
  with the default base URL sends it to \<open>https://build.sylabs.io/v1/builds\<close>. This holds for
  every method \<open>http.NewRequest\<close> accepts (the empty method stands for \<open>GET\<close>) and every
  body.\<close>

theorem C1_request_url:
  assumes "method = [] \<or> validMethod method"
  shows "(\<exists>c r. NewClient [OptBaseURL ''https://example.com/api''] = Inr c
            \<and> newRequest c method ''v1/builds'' body = Inr r
            \<and> URL_String (URL r) = ''https://example.com/api/v1/builds''
            \<and> URL_String (URL r) \<noteq> ''https://example.com/v1/builds'')
       \<and> (\<exists>c r. NewClient [] = Inr c
            \<and> newRequest c method ''v1/builds'' body = Inr r
            \<and> URL_String (URL r) = ''https://build.sylabs.io/v1/builds'')"
proof
  from newRequest_api_builds [OF assms, of body]
  show "\<exists>c r. NewClient [OptBaseURL ''https://example.com/api''] = Inr c
            \<and> newRequest c method ''v1/builds'' body = Inr r
            \<and> URL_String (URL r) = ''https://example.com/api/v1/builds''
            \<and> URL_String (URL r) \<noteq> ''https://example.com/v1/builds''"
    by auto
  from newRequest_default_builds [OF assms, of body]
  show "\<exists>c r. NewClient [] = Inr c
            \<and> newRequest c method ''v1/builds'' body = Inr r
            \<and> URL_String (URL r) = ''https://build.sylabs.io/v1/builds''" .
qed

text \<open>Claim C1, at the method \<open>GET\<close> with no body.\<close>

theorem C1_request_url_witness:
  "(\<exists>c r. NewClient [OptBaseURL ''https://example.com/api''] = Inr c
            \<and> newRequest c ''GET'' ''v1/builds'' None = Inr r
            \<and> URL_String (URL r) = ''https://example.com/api/v1/builds''
            \<and> URL_String (URL r) \<noteq> ''https://example.com/v1/builds'')
       \<and> (\<exists>c r. NewClient [] = Inr c
            \<and> newRequest c ''GET'' ''v1/builds'' None = Inr r
            \<and> URL_String (URL r) = ''https://build.sylabs.io/v1/builds'')"
proof -
  have "validMethod ''GET''" by code_simp
  then have "''GET'' = [] \<or> validMethod ''GET''" ..
  then show ?thesis by (rule C1_request_url)
qed

text \<open>Claim C2. Whenever \<open>NewClient\<close> succeeds, the base URL of the client has the scheme
  \<open>http\<close> or \<open>https\<close> and a path that ends with \<open>/\<close>; and when the options leave a base
  URL string that parses with any other scheme, \<open>NewClient\<close> fails.\<close>

theorem C2_base_url_invariant:
  "(NewClient opts = Inr c \<longrightarrow>
      (\<exists>u p. BaseURL c = Some u \<and> (Scheme u = ''http'' \<or> Scheme u = ''https'')
         \<and> Path u = p @ ''/''))
   \<and> (applyOptions opts initialOptions = Inr co \<and> url_Parse (baseURL co) = Inr u'
        \<and> Scheme u' \<noteq> ''http'' \<and> Scheme u' \<noteq> ''https''
      \<longrightarrow> (\<exists>e. NewClient opts = Inl e))"
proof (intro conjI impI)
  assume "NewClient opts = Inr c"
  then obtain co :: clientOptions and u
    where u: "normalizeURL (baseURL co) = Inr u" and c: "BaseURL c = Some u"
    by (auto dest!: NewClient_Inr)
  from normalizeURL_result [OF u] c show
    "\<exists>u p. BaseURL c = Some u \<and> (Scheme u = ''http'' \<or> Scheme u = ''https'') \<and> Path u = p @ ''/''"
    by (auto simp: strings_HasSuffix_slash_iff)
next
  assume "applyOptions opts initialOptions = Inr co \<and> url_Parse (baseURL co) = Inr u'
        \<and> Scheme u' \<noteq> ''http'' \<and> Scheme u' \<noteq> ''https''"
  then show "\<exists>e. NewClient opts = Inl e"
    by (simp add: NewClient_def normalizeURL_unsupported)
qed

text \<open>Claim C2, at the base URL \<open>https://example.com/api\<close>, which is accepted, and at
  \<open>ftp://x\<close>, which is refused.\<close>

theorem C2_base_url_invariant_witness:
  "(\<exists>c u p. NewClient [OptBaseURL ''https://example.com/api''] = Inr c \<and> BaseURL c = Some u
       \<and> (Scheme u = ''http'' \<or> Scheme u = ''https'') \<and> Path u = p @ ''/'')
   \<and> (\<exists>e. NewClient [OptBaseURL ''ftp://x''] = Inl e)"
proof
  let ?c = "\<lparr>BaseURL = Some (zeroURL\<lparr>Scheme := ''https'', Host := ''example.com'',
                Path := ''/api/''\<rparr>), AuthToken = [], UserAgent = [], HTTPClient = DefaultClient\<rparr>"
  have new: "NewClient [OptBaseURL ''https://example.com/api''] = Inr ?c"
    by code_simp
  from C2_base_url_invariant [of "[OptBaseURL ''https://example.com/api'']" ?c, THEN conjunct1,
      THEN mp, OF new] new
  show "\<exists>c u p. NewClient [OptBaseURL ''https://example.com/api''] = Inr c \<and> BaseURL c = Some u
       \<and> (Scheme u = ''http'' \<or> Scheme u = ''https'') \<and> Path u = p @ ''/''"
    by blast
next
  let ?co = "initialOptions\<lparr>baseURL := ''ftp://x''\<rparr>"
  let ?u = "zeroURL\<lparr>Scheme := ''ftp'', Host := ''x''\<rparr>"
  have "applyOptions [OptBaseURL ''ftp://x''] initialOptions = Inr ?co"
    by (simp add: OptBaseURL_def)
  moreover have "url_Parse (baseURL ?co) = Inr ?u"
    by code_simp
  moreover have "Scheme ?u \<noteq> ''http''" and "Scheme ?u \<noteq> ''https''"
    by (simp_all add: zeroURL_def)
  ultimately show "\<exists>e. NewClient [OptBaseURL ''ftp://x''] = Inl e"
    using C2_base_url_invariant [of "[OptBaseURL ''ftp://x'']" _ ?co ?u, THEN conjunct2]
    by blast
qed

text \<open>Claim C3. A request that \<open>newRequest\<close> builds carries \<open>Authorization\<close> exactly when
  the client's token is not empty, with the single value \<open>BEARER\<close>, a space and the token; it
  carries \<open>User-Agent\<close> exactly when the client's user agent is not empty, with that value; and
  it carries no other header.\<close>

theorem C3_request_headers:
  assumes "newRequest c method path body = Inr r"
  shows "Header r ''Authorization''
           = (if AuthToken c \<noteq> [] then Some [''BEARER '' @ AuthToken c] else None)
    \<and> Header r ''User-Agent'' = (if UserAgent c \<noteq> [] then Some [UserAgent c] else None)
    \<and> dom (Header r) \<subseteq> {''Authorization'', ''User-Agent''}"
proof -
  from assms have "Header r = setRequestHeaders c Map.empty"
    by (auto simp: newRequest_def http_NewRequest_def Let_def split: option.splits sum.splits if_splits)
  then show ?thesis
    by (auto simp: setRequestHeaders_def Header_Set_def Let_def split: if_splits)
qed

text \<open>Claim C3, for a client with the token \<open>abc123\<close> and no user agent, and for a client
  with no token and the user agent \<open>scs/1.0\<close>.\<close>

theorem C3_request_headers_witness:
  "(\<exists>r. newRequest \<lparr>BaseURL = Some (zeroURL\<lparr>Scheme := ''https'', Host := ''build.sylabs.io'',
          Path := ''/''\<rparr>), AuthToken = ''abc123'', UserAgent = [], HTTPClient = DefaultClient\<rparr>
        ''GET'' ''v1/builds'' None = Inr r
      \<and> Header r ''Authorization'' = Some [''BEARER abc123'']
      \<and> Header r ''User-Agent'' = None
      \<and> dom (Header r) \<subseteq> {''Authorization'', ''User-Agent''})
   \<and> (\<exists>r. newRequest \<lparr>BaseURL = Some (zeroURL\<lparr>Scheme := ''https'', Host := ''build.sylabs.io'',
          Path := ''/''\<rparr>), AuthToken = [], UserAgent = ''scs/1.0'', HTTPClient = DefaultClient\<rparr>
        ''GET'' ''v1/builds'' None = Inr r
      \<and> Header r ''Authorization'' = None
      \<and> Header r ''User-Agent'' = Some [''scs/1.0'']
      \<and> dom (Header r) \<subseteq> {''Authorization'', ''User-Agent''})"
proof
  let ?base = "zeroURL\<lparr>Scheme := ''https'', Host := ''build.sylabs.io'', Path := ''/''\<rparr>"
  let ?u = "zeroURL\<lparr>Scheme := ''https'', Host := ''build.sylabs.io'', Path := ''/v1/builds''\<rparr>"
  have resolve: "URL_String (URL_ResolveReference ?base
      (zeroURL\<lparr>Path := strings_TrimPrefix ''v1/builds'' ''/''\<rparr>)) = ''https://build.sylabs.io/v1/builds''"
    by code_simp
  have parse: "url_Parse ''https://build.sylabs.io/v1/builds'' = Inr ?u"
    by code_simp
  have get: "''GET'' = [] \<or> validMethod ''GET''"
    by code_simp
  {
    let ?c = "\<lparr>BaseURL = Some ?base, AuthToken = ''abc123'', UserAgent = [], HTTPClient = DefaultClient\<rparr>"
    have "BaseURL ?c = Some ?base" by simp
    from newRequest_URL [OF this get resolve parse, of None]
    obtain r where r: "newRequest ?c ''GET'' ''v1/builds'' None = Inr r"
      by blast
    from C3_request_headers [OF r] r
    show "\<exists>r. newRequest ?c ''GET'' ''v1/builds'' None = Inr r
      \<and> Header r ''Authorization'' = Some [''BEARER abc123'']
      \<and> Header r ''User-Agent'' = None
      \<and> dom (Header r) \<subseteq> {''Authorization'', ''User-Agent''}"
      by simp
  }
  {
    let ?c = "\<lparr>BaseURL = Some ?base, AuthToken = [], UserAgent = ''scs/1.0'', HTTPClient = DefaultClient\<rparr>"
    have "BaseURL ?c = Some ?base" by simp
    from newRequest_URL [OF this get resolve parse, of None]
    obtain r where r: "newRequest ?c ''GET'' ''v1/builds'' None = Inr r"
      by blast
    from C3_request_headers [OF r] r
    show "\<exists>r. newRequest ?c ''GET'' ''v1/builds'' None = Inr r
      \<and> Header r ''Authorization'' = None
      \<and> Header r ''User-Agent'' = Some [''scs/1.0'']
      \<and> dom (Header r) \<subseteq> {''Authorization'', ''User-Agent''}"
      by simp
  }
qed




text \<open>An input that \<open>url.Parse\<close> rejects fails with the parse error, whatever its scheme.\<close>

lemma normalizeURL_unparsable:
  "normalizeURL ''ftp://[::1''
     = Inl (url_Error ''parse'' ''ftp://[::1'' (errorString ''missing ']' in host''))"
  by code_simp

text \<open>Claim C5, as the code has it. For a sequence of the exposed options on which \<open>NewClient\<close>
  succeeds, the transport handle of the client is the one given by the last transport option,
  and \<open>http.DefaultClient\<close> when no transport option was given; it is not \<open>nil\<close> when no
  transport option gave \<open>nil\<close>.\<close>

theorem C5_transport_handle:
  assumes "NewClient (map exposedOption specs) = Inr c"
  shows "HTTPClient c = lastOr DefaultClient (transportsGiven specs)
    \<and> (nil \<notin> set (transportsGiven specs) \<longrightarrow> HTTPClient c \<noteq> nil)"
proof -
  obtain co' where co': "applyOptions (map exposedOption specs) initialOptions = Inr co'"
    and h: "httpClient co' = lastOr (httpClient initialOptions) (transportsGiven specs)"
    using applyOptions_exposed by blast
  from assms co' have "HTTPClient c = httpClient co'"
    by (auto dest!: NewClient_Inr)
  with h have eq: "HTTPClient c = lastOr DefaultClient (transportsGiven specs)"
    by (simp add: initialOptions_def)
  moreover have "HTTPClient c \<noteq> nil" if "nil \<notin> set (transportsGiven specs)"
  proof (cases "transportsGiven specs = []")
    case True
    with eq show ?thesis by (simp add: lastOr_def)
  next
    case False
    then have "last (transportsGiven specs) \<in> set (transportsGiven specs)"
      by (rule last_in_set)
    with that have "last (transportsGiven specs) \<noteq> nil" by metis
    with eq False show ?thesis by (simp add: lastOr_def)
  qed
  ultimately show ?thesis by blast
qed

text \<open>Claim C5, for a sequence with two transport options, and for one with none.\<close>

theorem C5_transport_handle_witness:
  "(\<exists>c. NewClient (map exposedOption [HTTPClientSpec (ClientAt 1), BearerTokenSpec ''t'',
        HTTPClientSpec (ClientAt 2)]) = Inr c \<and> HTTPClient c = ClientAt 2 \<and> HTTPClient c \<noteq> nil)
   \<and> (\<exists>c. NewClient (map exposedOption [UserAgentSpec ''a'']) = Inr c
        \<and> HTTPClient c = DefaultClient \<and> HTTPClient c \<noteq> nil)"
proof
  let ?base = "zeroURL\<lparr>Scheme := ''https'', Host := ''build.sylabs.io'', Path := ''/''\<rparr>"
  let ?c = "\<lparr>BaseURL = Some ?base, AuthToken = ''t'', UserAgent = [], HTTPClient = ClientAt 2\<rparr>"
  have new: "NewClient (map exposedOption [HTTPClientSpec (ClientAt 1), BearerTokenSpec ''t'',
        HTTPClientSpec (ClientAt 2)]) = Inr ?c"
    by code_simp
  from C5_transport_handle [OF new] new
  show "\<exists>c. NewClient (map exposedOption [HTTPClientSpec (ClientAt 1), BearerTokenSpec ''t'',
        HTTPClientSpec (ClientAt 2)]) = Inr c \<and> HTTPClient c = ClientAt 2 \<and> HTTPClient c \<noteq> nil"
    by (simp add: lastOr_def)
next
  let ?base = "zeroURL\<lparr>Scheme := ''https'', Host := ''build.sylabs.io'', Path := ''/''\<rparr>"
  let ?c = "\<lparr>BaseURL = Some ?base, AuthToken = [], UserAgent = ''a'', HTTPClient = DefaultClient\<rparr>"
  have new: "NewClient (map exposedOption [UserAgentSpec ''a'']) = Inr ?c"
    by code_simp
  from C5_transport_handle [OF new] new
  show "\<exists>c. NewClient (map exposedOption [UserAgentSpec ''a'']) = Inr c
        \<and> HTTPClient c = DefaultClient \<and> HTTPClient c \<noteq> nil"
    by (simp add: lastOr_def)
qed

text \<open>Claim C5 says that the transport handle is never empty. \<open>OptHTTPClient(nil)\<close> stores
  \<open>nil\<close>, and \<open>NewClient\<close> returns a client whose handle is \<open>nil\<close>.\<close>

theorem C5_transport_never_empty_counterexample:
  "map_sum id HTTPClient (NewClient [OptHTTPClient nil]) = Inr nil"
  by code_simp

text \<open>Claim C6, as the code has it. \<open>newRequest\<close> removes one leading \<open>/\<close> from the path:
  what is left of \<open>/p\<close> is \<open>p\<close>. When \<open>p\<close> does not itself begin with \<open>/\<close>, the paths
  \<open>/p\<close> and \<open>p\<close> give the same result (the same request, or the same error), for every
  client, method and body.\<close>

theorem C6_leading_separator:
  "strings_TrimPrefix (CHR ''/'' # p) ''/'' = p
   \<and> (\<not> strings_HasPrefix p ''/''
        \<longrightarrow> newRequest c method (CHR ''/'' # p) body = newRequest c method p body)"
proof (intro conjI impI)
  show stripped: "strings_TrimPrefix (CHR ''/'' # p) ''/'' = p"
    by (simp add: strings_TrimPrefix_def strings_HasPrefix_def)
  assume "\<not> strings_HasPrefix p ''/''"
  then have "strings_TrimPrefix p ''/'' = p"
    by (simp add: strings_TrimPrefix_def)
  with stripped show "newRequest c method (CHR ''/'' # p) body = newRequest c method p body"
    by (simp only: newRequest_def)
qed

text \<open>Claim C6, at the path \<open>v1/builds\<close>.\<close>

theorem C6_leading_separator_witness:
  "strings_TrimPrefix ''/v1/builds'' ''/'' = ''v1/builds''
   \<and> newRequest \<lparr>BaseURL = Some (zeroURL\<lparr>Scheme := ''https'', Host := ''example.com'',
          Path := ''/api/''\<rparr>), AuthToken = [], UserAgent = [], HTTPClient = DefaultClient\<rparr>
        ''GET'' ''/v1/builds'' None
     = newRequest \<lparr>BaseURL = Some (zeroURL\<lparr>Scheme := ''https'', Host := ''example.com'',
          Path := ''/api/''\<rparr>), AuthToken = [], UserAgent = [], HTTPClient = DefaultClient\<rparr>
        ''GET'' ''v1/builds'' None"
proof -
  have "\<not> strings_HasPrefix ''v1/builds'' ''/''"
    by code_simp
  with C6_leading_separator [where p = "''v1/builds''"] show ?thesis
    by blast
qed

text \<open>Claim C6 says that the paths \<open>/p\<close> and \<open>p\<close> give the same request URL for every
  \<open>p\<close>. For \<open>p = /v1\<close> they do not: \<open>//v1\<close> keeps one leading separator, which makes the
  reference rooted, and the request goes to \<open>https://example.com/v1\<close>; \<open>/v1\<close> goes to
  \<open>https://example.com/api/v1\<close>.\<close>

theorem C6_double_separator_counterexample:
  "requestURL (newRequest \<lparr>BaseURL = Some (zeroURL\<lparr>Scheme := ''https'', Host := ''example.com'',
          Path := ''/api/''\<rparr>), AuthToken = [], UserAgent = [], HTTPClient = DefaultClient\<rparr>
        ''GET'' (CHR ''/'' # ''/v1'') None) = Inr ''https://example.com/v1''
   \<and> requestURL (newRequest \<lparr>BaseURL = Some (zeroURL\<lparr>Scheme := ''https'', Host := ''example.com'',
          Path := ''/api/''\<rparr>), AuthToken = [], UserAgent = [], HTTPClient = DefaultClient\<rparr>
        ''GET'' ''/v1'' None) = Inr ''https://example.com/api/v1''"
  by code_simp




text \<open>Claim C8. When an option reports an error after the options before it have succeeded,
  \<open>NewClient\<close> returns that error wrapped and no client, whatever options follow, and it has
  called no option after the failing one. When the options succeed and the base URL cannot be
  normalized, \<open>NewClient\<close> returns that error wrapped and no client. A client is returned only
  when every option and the normalization have succeeded.\<close>

theorem C8_first_failure:
  "(applyOptions pre initialOptions = Inr co \<and> opt co = (Some err, co')
      \<longrightarrow> NewClient (pre @ opt # rest) = Inl (Errorf_w err)
          \<and> optionsCalled (pre @ opt # rest) initialOptions = Suc (length pre))
   \<and> (applyOptions opts initialOptions = Inr co \<and> normalizeURL (baseURL co) = Inl e
      \<longrightarrow> NewClient opts = Inl (Errorf_w e))
   \<and> (NewClient opts = Inr c
      \<longrightarrow> (\<exists>co u. applyOptions opts initialOptions = Inr co \<and> normalizeURL (baseURL co) = Inr u))"
proof (intro conjI impI)
  assume a: "applyOptions pre initialOptions = Inr co \<and> opt co = (Some err, co')"
  then show "NewClient (pre @ opt # rest) = Inl (Errorf_w err)"
    by (simp add: NewClient_def applyOptions_append)
  from a show "optionsCalled (pre @ opt # rest) initialOptions = Suc (length pre)"
    by (simp add: optionsCalled_append)
next
  assume "applyOptions opts initialOptions = Inr co \<and> normalizeURL (baseURL co) = Inl e"
  then show "NewClient opts = Inl (Errorf_w e)"
    by (simp add: NewClient_def)
next
  assume "NewClient opts = Inr c"
  then show "\<exists>co u. applyOptions opts initialOptions = Inr co \<and> normalizeURL (baseURL co) = Inr u"
    by (auto dest!: NewClient_Inr)
qed

text \<open>Claim C8, for an option that reports an error between two exposed options, for the base
  URL \<open>ftp://x\<close>, and for the empty sequence.\<close>

theorem C8_first_failure_witness:
  "NewClient ([OptBearerToken ''t''] @ (\<lambda>co. (Some (errorString ''rejected''), co))
       # [OptBaseURL ''ftp://x'']) = Inl (Errorf_w (errorString ''rejected''))
   \<and> optionsCalled ([OptBearerToken ''t''] @ (\<lambda>co. (Some (errorString ''rejected''), co))
       # [OptBaseURL ''ftp://x'']) initialOptions = 2
   \<and> NewClient [OptBaseURL ''ftp://x'']
        = Inl (Errorf_w (Errorf_w_s errUnsupportedProtocolScheme ''ftp''))
   \<and> (\<exists>co u. applyOptions [] initialOptions = Inr co \<and> normalizeURL (baseURL co) = Inr u)"
proof -
  let ?co = "initialOptions\<lparr>bearerToken := ''t''\<rparr>"
  let ?opt = "\<lambda>co :: clientOptions. (Some (errorString ''rejected''), co)"
  have pre: "applyOptions [OptBearerToken ''t''] initialOptions = Inr ?co \<and> ?opt ?co = (Some (errorString ''rejected''), ?co)"
    by (simp add: OptBearerToken_def)
  let ?co2 = "initialOptions\<lparr>baseURL := ''ftp://x''\<rparr>"
  have "normalizeURL ''ftp://x'' = Inl (Errorf_w_s errUnsupportedProtocolScheme ''ftp'')"
    by code_simp
  then have norm: "applyOptions [OptBaseURL ''ftp://x''] initialOptions = Inr ?co2
      \<and> normalizeURL (baseURL ?co2) = Inl (Errorf_w_s errUnsupportedProtocolScheme ''ftp'')"
    by (simp add: OptBaseURL_def)
  let ?c = "\<lparr>BaseURL = Some (zeroURL\<lparr>Scheme := ''https'', Host := ''build.sylabs.io'',
                Path := ''/''\<rparr>), AuthToken = [], UserAgent = [], HTTPClient = DefaultClient\<rparr>"
  have new: "NewClient [] = Inr ?c"
    by code_simp
  from C8_first_failure [where pre = "[OptBearerToken ''t'']" and co = ?co and opt = ?opt
        and err = "errorString ''rejected''" and co' = ?co and rest = "[OptBaseURL ''ftp://x'']",
        THEN conjunct1, THEN mp, OF pre]
    C8_first_failure [where co = ?co2 and opts = "[OptBaseURL ''ftp://x'']",
        THEN conjunct2, THEN conjunct1, THEN mp, OF norm]
    C8_first_failure [where opts = "[]" and c = ?c,
        THEN conjunct2, THEN conjunct2, THEN mp, OF new]
  show ?thesis
    by simp
qed

text \<open>Claim C9. \<open>NewClient\<close> with no options succeeds; the client has the base URL
  \<open>https://build.sylabs.io/\<close>, an empty token, an empty user agent and the transport
  \<open>http.DefaultClient\<close>.\<close>

theorem C9_default_client:
  "NewClient [] = Inr \<lparr>BaseURL = Some (zeroURL\<lparr>Scheme := ''https'', Host := ''build.sylabs.io'',
                                        Path := ''/''\<rparr>),
                      AuthToken = [], UserAgent = [], HTTPClient = DefaultClient\<rparr>
   \<and> URL_String (zeroURL\<lparr>Scheme := ''https'', Host := ''build.sylabs.io'', Path := ''/''\<rparr>)
       = ''https://build.sylabs.io/''"
  by code_simp

text \<open>Claim C9, read through the fields of the returned client.\<close>

theorem C9_default_client_witness:
  "\<exists>c u. NewClient [] = Inr c \<and> BaseURL c = Some u \<and> URL_String u = ''https://build.sylabs.io/''
     \<and> AuthToken c = [] \<and> UserAgent c = [] \<and> HTTPClient c = DefaultClient"
  using C9_default_client by simp

text \<open>Claim C10. An option built by one of the four exposed constructors never reports an
  error; so for a sequence of such options \<open>NewClient\<close> fails exactly when \<open>normalizeURL\<close>
  fails on the base URL string given last (the default one when none is given).\<close>

theorem C10_exposed_options:
  "fst (OptBaseURL url co) = None \<and> fst (OptBearerToken token co) = None
   \<and> fst (OptUserAgent agent co) = None \<and> fst (OptHTTPClient h co) = None
   \<and> ((\<exists>e. NewClient (map exposedOption specs) = Inl e)
        \<longleftrightarrow> (\<exists>e. normalizeURL (lastOr defaultBaseURL (baseURLsGiven specs)) = Inl e))"
proof -
  obtain co' where co': "applyOptions (map exposedOption specs) initialOptions = Inr co'"
    and b: "baseURL co' = lastOr (baseURL initialOptions) (baseURLsGiven specs)"
    using applyOptions_exposed by blast
  have "baseURL initialOptions = defaultBaseURL"
    by (simp add: initialOptions_def)
  with co' b have "(\<exists>e. NewClient (map exposedOption specs) = Inl e)
        \<longleftrightarrow> (\<exists>e. normalizeURL (lastOr defaultBaseURL (baseURLsGiven specs)) = Inl e)"
    by (auto simp: NewClient_def Let_def split: sum.splits)
  then show ?thesis
    by (simp add: OptBaseURL_def OptBearerToken_def OptUserAgent_def OptHTTPClient_def)
qed

text \<open>Claim C10, for a sequence whose last base URL is \<open>ftp://x\<close>, and for one whose last
  base URL is \<open>http://h\<close>.\<close>

theorem C10_exposed_options_witness:
  "(\<exists>e. NewClient (map exposedOption [BaseURLSpec ''http://h'', UserAgentSpec ''a'',
        BaseURLSpec ''ftp://x'']) = Inl e)
   \<and> \<not> (\<exists>e. NewClient (map exposedOption [BaseURLSpec ''ftp://x'', HTTPClientSpec nil,
        BaseURLSpec ''http://h'']) = Inl e)"
proof
  have "normalizeURL ''ftp://x'' = Inl (Errorf_w_s errUnsupportedProtocolScheme ''ftp'')"
    by code_simp
  then have "\<exists>e. normalizeURL (lastOr defaultBaseURL (baseURLsGiven [BaseURLSpec ''http://h'',
      UserAgentSpec ''a'', BaseURLSpec ''ftp://x''])) = Inl e"
    by (simp add: lastOr_def)
  with C10_exposed_options [where specs = "[BaseURLSpec ''http://h'', UserAgentSpec ''a'',
      BaseURLSpec ''ftp://x'']"]
  show "\<exists>e. NewClient (map exposedOption [BaseURLSpec ''http://h'', UserAgentSpec ''a'',
        BaseURLSpec ''ftp://x'']) = Inl e"
    by blast
next
  have "normalizeURL ''http://h'' = Inr (zeroURL\<lparr>Scheme := ''http'', Host := ''h'', Path := ''/''\<rparr>)"
    by code_simp
  then have "\<not> (\<exists>e. normalizeURL (lastOr defaultBaseURL (baseURLsGiven [BaseURLSpec ''ftp://x'',
      HTTPClientSpec nil, BaseURLSpec ''http://h''])) = Inl e)"
    by (simp add: lastOr_def)
  with C10_exposed_options [where specs = "[BaseURLSpec ''ftp://x'', HTTPClientSpec nil,
      BaseURLSpec ''http://h'']"]
  show "\<not> (\<exists>e. NewClient (map exposedOption [BaseURLSpec ''ftp://x'', HTTPClientSpec nil,
        BaseURLSpec ''http://h'']) = Inl e)"
    by blast
qed

end
